theory Spec2Isabelle
  imports Complex_Main "HOL-Library.Sublist"
begin

section \<open>Strings as the sheet client sees them\<close>

text \<open>
  The contact source hands every cell over as a Python \<open>str\<close>. A string is modelled as a
  \<open>string\<close> whose characters are the code points U+0000 to U+00FF. On that range
  \<open>str.isspace\<close> (the predicate behind \<open>str.strip()\<close>) holds for TAB, LF, VT, FF, CR,
  the separators U+001C to U+001F, SPACE, NEL (U+0085) and NBSP (U+00A0), and
  \<open>str.isdigit\<close> holds for \<open>0\<close> to \<open>9\<close> and for the superscripts U+00B2, U+00B3, U+00B9.
\<close>

definition isspace :: "char \<Rightarrow> bool" where
  "isspace c =
     (let n = (of_char c :: nat)
      in (9 \<le> n \<and> n \<le> 13) \<or> (28 \<le> n \<and> n \<le> 32) \<or> n = 133 \<or> n = 160)"

definition isdigit :: "char \<Rightarrow> bool" where
  "isdigit c =
     (let n = (of_char c :: nat)
      in (48 \<le> n \<and> n \<le> 57) \<or> n = 178 \<or> n = 179 \<or> n = 185)"

definition lstrip :: "string \<Rightarrow> string" where
  "lstrip s = dropWhile isspace s"

definition rstrip :: "string \<Rightarrow> string" where
  "rstrip s = rev (dropWhile isspace (rev s))"

text \<open>\<open>s.strip()\<close>: leading and trailing whitespace removed.\<close>

definition strip :: "string \<Rightarrow> string" where
  "strip s = rstrip (lstrip s)"

text \<open>
  \<open>s.split(sep, 1)\<close> for a one-character separator: at most one cut, at the first
  occurrence of the separator; a string without the separator comes back whole.
\<close>

definition split_once :: "char \<Rightarrow> string \<Rightarrow> string list" where
  "split_once sep s =
     (if sep \<in> set s
      then [takeWhile (\<lambda>c. c \<noteq> sep) s, drop 1 (dropWhile (\<lambda>c. c \<noteq> sep) s)]
      else [s])"

subsection \<open>google_sheets.py: extract_first_name, normalize_phone\<close>

definition extract_first_name :: "string \<Rightarrow> string" where
  "extract_first_name sort_name =
     (if sort_name = [] \<or> strip sort_name = [] then ''there''
      else if CHR '','' \<in> set sort_name then
        (let parts = split_once CHR '','' sort_name;
             first = strip (parts ! 1)
         in if first \<noteq> [] then first else ''there'')
      else strip sort_name)"

definition normalize_phone :: "string \<Rightarrow> string" where
  "normalize_phone phone_raw =
     (if phone_raw = [] then [] else filter isdigit phone_raw)"

subsection \<open>google_sheets.py: Contact, get_pending_contacts\<close>

text \<open>
  \<open>row_number\<close> is the 1-indexed sheet row; \<open>enumerate(..., start=2)\<close> only ever produces
  positive numbers, so it is a \<open>nat\<close>.
\<close>

record contact =
  row_number :: nat
  sort_name :: string
  first_name :: string
  phone_raw :: string
  phone_clean :: string







text \<open>
  The text after the first comma of a string, as \<open>sort_name.split(",", 1)[1]\<close> gives it;
  used to state what \<open>extract_first_name\<close> returns.
\<close>

definition after_first_comma :: "string \<Rightarrow> string" where
  "after_first_comma s = drop 1 (dropWhile (\<lambda>c. c \<noteq> CHR '','') s)"

section \<open>Exceptions\<close>

text \<open>
  The exceptions the code raises or tells apart by class, each with the text that
  \<open>str(e)\<close> gives for it. \<open>ContactNotFoundError\<close> and \<open>SendTimeoutError\<close> are subclasses of
  \<open>WhatsAppSendError\<close>; \<open>TimeoutException\<close> is selenium's; the built-in classes are
  those the library calls of the code raise on bad input; \<open>OtherException\<close> stands for
  an exception of any other class below \<open>Exception\<close>.
\<close>

datatype exn =
    TimeoutException string
  | KeyError string
  | RuntimeError string
  | WhatsAppSendError string
  | ContactNotFoundError string
  | SendTimeoutError string
  | FileNotFoundError string
  | OverflowError string
  | ValueError string
  | TypeError string
  | OtherException string

fun str_exn :: "exn \<Rightarrow> string" where
  "str_exn (TimeoutException m) = m"
| "str_exn (KeyError m) = m"
| "str_exn (RuntimeError m) = m"
| "str_exn (WhatsAppSendError m) = m"
| "str_exn (ContactNotFoundError m) = m"
| "str_exn (SendTimeoutError m) = m"
| "str_exn (FileNotFoundError m) = m"
| "str_exn (OverflowError m) = m"
| "str_exn (ValueError m) = m"
| "str_exn (TypeError m) = m"
| "str_exn (OtherException m) = m"

text \<open>
  \<open>repr\<close> of a string, which is what \<open>str\<close> of a \<open>KeyError\<close> shows: double quotes when
  the text has a single quote and no double quote, single quotes otherwise; the quote
  and the backslash escaped, TAB, LF and CR as \<open>\t\<close>, \<open>\n\<close>, \<open>\r\<close>, and every other
  unprintable character (the controls, DEL, U+0080 to U+00A0, U+00AD) as \<open>\xhh\<close>.
\<close>

definition hex2 :: "nat \<Rightarrow> string" where
  "hex2 n = [''0123456789abcdef'' ! (n div 16), ''0123456789abcdef'' ! (n mod 16)]"

definition repr_char :: "char \<Rightarrow> char \<Rightarrow> string" where
  "repr_char q c =
     (let n = (of_char c :: nat)
      in if c = q \<or> n = 92 then [CHR 0x5C, c]
         else if n = 9 then [CHR 0x5C, CHR ''t'']
         else if n = 10 then [CHR 0x5C, CHR ''n'']
         else if n = 13 then [CHR 0x5C, CHR ''r'']
         else if n < 32 \<or> n = 127 then CHR 0x5C # CHR ''x'' # hex2 n
         else if n < 127 then [c]
         else if n \<le> 160 \<or> n = 173 then CHR 0x5C # CHR ''x'' # hex2 n
         else [c])"

definition repr :: "string \<Rightarrow> string" where
  "repr s =
     (let q = (if CHR 0x27 \<in> set s \<and> CHR 0x22 \<notin> set s then CHR 0x22 else CHR 0x27)
      in q # concat (map (repr_char q) s) @ [q])"

text \<open>
  The exceptions this code constructs itself: \<open>SELECTORS[key]\<close> for a missing key raises
  \<open>KeyError(key)\<close>, and \<open>TimeoutException(msg)\<close> is selenium's exception with no screen
  and no stack trace, whose text is \<open>Message: \<close> followed by the message and a line feed.
\<close>

definition key_error :: "string \<Rightarrow> exn" where
  "key_error k = KeyError (repr k)"

definition timeout_exception :: "string \<Rightarrow> exn" where
  "timeout_exception msg = TimeoutException (''Message: '' @ msg @ [CHR 0x0A])"

section \<open>whatsapp_sender.py: the selector resolver\<close>

text \<open>
  A locator is a pair of a strategy and a selector text; \<open>SELECTORS\<close> is the registry of
  the source, a dictionary from logical target names to ordered locator lists.
\<close>

datatype By = CSS_SELECTOR | XPATH

type_synonym locator = "By \<times> string"

definition SELECTORS :: "(string \<times> locator list) list" where
  \<open>SELECTORS =
   [(''message_input'',
      [(CSS_SELECTOR, ''div[contenteditable="true"][data-tab="10"]''),
       (CSS_SELECTOR, ''div[contenteditable="true"][title="Type a message"]''),
       (CSS_SELECTOR, ''footer div[contenteditable="true"]'')]),
    (''attach_button'',
      [(CSS_SELECTOR, ''span[data-icon="plus-rounded"]''),
       (CSS_SELECTOR, ''div[title="Attach"]''),
       (CSS_SELECTOR, ''span[data-icon="plus"]''),
       (CSS_SELECTOR, ''span[data-icon="attach-menu-plus"]''),
       (CSS_SELECTOR, ''div[aria-label="Attach"]'')]),
    (''image_input'',
      [(CSS_SELECTOR, ''input[accept="image/*,video/mp4,video/3gpp,video/quicktime"]''),
       (CSS_SELECTOR, ''input[accept*="image/*"]''),
       (XPATH, ''//input[@type="file" and contains(@accept, "image")]'')]),
    (''caption_input'',
      [(CSS_SELECTOR, ''div[contenteditable="true"][data-tab="undefined"]''),
       (XPATH, ''//div[@contenteditable="true" and @data-tab="undefined" and @role="textbox"]''),
       (XPATH, ''//div[@contenteditable="true" and contains(@aria-placeholder, "caption")]''),
       (XPATH, ''//div[@contenteditable="true" and contains(@aria-placeholder, "Add a")]'')]),
    (''send_button'',
      [(CSS_SELECTOR, ''span[data-icon="wds-ic-send-filled"]''),
       (CSS_SELECTOR, ''div[aria-label="Send"]''),
       (CSS_SELECTOR, ''span[data-icon="send"]''),
       (CSS_SELECTOR, ''div[role="button"][aria-label="Send"]'')]),
    (''invalid_phone_popup'',
      [(XPATH, ''//*[contains(text(), "Phone number shared via url is invalid")]''),
       (XPATH, ''//*[contains(text(), "phone number shared via url is invalid")]'')]),
    (''popup_ok_button'',
      [(XPATH, ''//div[@role="button" and .//div[text()="OK"]]''),
       (XPATH, ''//div[contains(@class, "popup")]//div[@role="button"]'')]),
    (''continue_to_chat'',
      [(XPATH, ''//div[@role="button" and .//div[text()="Continue to Chat"]]''),
       (XPATH, ''//*[contains(text(), "Continue to Chat")]'')]),
    (''photos_and_videos'',
      [(CSS_SELECTOR, ''div[aria-label="Photos & videos"]''),
       (XPATH, ''//div[@role="listitem" and .//span[text()="Photos & videos"]]''),
       (XPATH, ''//*[contains(text(), "Photos & videos")]'')])]\<close>


text \<open>
  \<open>WebDriverWait(driver, timeout).until(condition(locator))\<close> polls until the condition
  holds and returns the element, raises \<open>TimeoutException\<close> once the bound has elapsed, or
  lets any other exception of the condition through (a lost session, an invalid
  selector). The browser is a parameter \<open>until\<close> that gives, for a wait on a locator at
  the moment the resolver gets to it, the outcome and the time the wait took in
  milliseconds. The two conditions are the two resolution predicates.
\<close>

datatype condition = presence_of_element_located | element_to_be_clickable

datatype 'e wait_result = Found 'e nat | Raised exn nat

type_synonym 'e webdriver_wait = "condition \<Rightarrow> locator \<Rightarrow> int \<Rightarrow> 'e wait_result"

text \<open>\<open>f"{last_exception}"\<close>, where \<open>last_exception\<close> may still be \<open>None\<close>.\<close>

definition str_last :: "exn option \<Rightarrow> string" where
  "str_last last_exception = (case last_exception of None \<Rightarrow> ''None'' | Some e \<Rightarrow> str_exn e)"

text \<open>
  What one resolver call did besides returning: the locators a wait was started on, in
  the order of the waits, and the time spent in those waits.
\<close>

record wait_trace =
  tried :: "locator list"
  waited_ms :: nat

definition after_wait :: "locator \<Rightarrow> nat \<Rightarrow> wait_trace \<Rightarrow> wait_trace" where
  "after_wait sel ms tr = \<lparr>tried = tried tr @ [sel], waited_ms = waited_ms tr + ms\<rparr>"

text \<open>
  The \<open>for by, value in selectors\<close> loop shared by both resolvers. Only
  \<open>TimeoutException\<close> is caught; the result \<open>Inl (Inl e)\<close> is an exception of another class
  leaving the loop, \<open>Inl (Inr last)\<close> is the loop running out of locators with
  \<open>last_exception = last\<close>.
\<close>

fun try_selectors ::
  "'e webdriver_wait \<Rightarrow> condition \<Rightarrow> int \<Rightarrow> locator list \<Rightarrow> exn option \<Rightarrow> wait_trace
     \<Rightarrow> ((exn + exn option) + 'e) \<times> wait_trace" where
  "try_selectors until cond timeout [] last_exception tr = (Inl (Inr last_exception), tr)"
| "try_selectors until cond timeout (sel # rest) last_exception tr =
     (case until cond sel timeout of
        Found element ms \<Rightarrow> (Inr element, after_wait sel ms tr)
      | Raised (TimeoutException m) ms \<Rightarrow>
          try_selectors until cond timeout rest (Some (TimeoutException m)) (after_wait sel ms tr)
      | Raised e ms \<Rightarrow> (Inl (Inl e), after_wait sel ms tr))"

definition find_element_with_fallbacks ::
  "'e webdriver_wait \<Rightarrow> string \<Rightarrow> int \<Rightarrow> (exn + 'e) \<times> wait_trace" where
  "find_element_with_fallbacks until selector_key timeout =
     (case map_of SELECTORS selector_key of
        None \<Rightarrow> (Inl (key_error selector_key), \<lparr>tried = [], waited_ms = 0\<rparr>)
      | Some selectors \<Rightarrow>
          (case try_selectors until presence_of_element_located timeout selectors None
                  \<lparr>tried = [], waited_ms = 0\<rparr> of
             (Inr element, tr) \<Rightarrow> (Inr element, tr)
           | (Inl (Inl e), tr) \<Rightarrow> (Inl e, tr)
           | (Inl (Inr last_exception), tr) \<Rightarrow>
               (Inl (timeout_exception
                  (''Could not find element '' @ CHR 0x27 # selector_key
                   @ ''' with any selector. Last error: '' @ str_last last_exception)), tr)))"

definition find_clickable_with_fallbacks ::
  "'e webdriver_wait \<Rightarrow> string \<Rightarrow> int \<Rightarrow> (exn + 'e) \<times> wait_trace" where
  "find_clickable_with_fallbacks until selector_key timeout =
     (case map_of SELECTORS selector_key of
        None \<Rightarrow> (Inl (key_error selector_key), \<lparr>tried = [], waited_ms = 0\<rparr>)
      | Some selectors \<Rightarrow>
          (case try_selectors until element_to_be_clickable timeout selectors None
                  \<lparr>tried = [], waited_ms = 0\<rparr> of
             (Inr element, tr) \<Rightarrow> (Inr element, tr)
           | (Inl (Inl e), tr) \<Rightarrow> (Inl e, tr)
           | (Inl (Inr last_exception), tr) \<Rightarrow>
               (Inl (timeout_exception
                  (''Could not find clickable element '' @ CHR 0x27 # selector_key
                   @ '''. Last error: '' @ str_last last_exception)), tr)))"

text \<open>
  A wait times out when it raises \<open>TimeoutException\<close>; \<open>wait_ms\<close> is the time it took.
\<close>

definition times_out :: "'e webdriver_wait \<Rightarrow> condition \<Rightarrow> int \<Rightarrow> locator \<Rightarrow> bool" where
  "times_out until cond timeout sel =
     (case until cond sel timeout of Raised (TimeoutException _) _ \<Rightarrow> True | _ \<Rightarrow> False)"

definition wait_ms :: "'e wait_result \<Rightarrow> nat" where
  "wait_ms r = (case r of Found _ ms \<Rightarrow> ms | Raised _ ms \<Rightarrow> ms)"

definition wait_error :: "'e wait_result \<Rightarrow> exn option" where
  "wait_error r = (case r of Found _ _ \<Rightarrow> None | Raised e _ \<Rightarrow> Some e)"

text \<open>
  A browser in which only the third message-input locator is ever present: the waits on
  the other locators last the whole bound and time out; and one whose session is lost.
\<close>

definition demo_wait :: "nat webdriver_wait" where
  \<open>demo_wait cond sel timeout =
     (if sel = (CSS_SELECTOR, ''footer div[contenteditable="true"]'')
      then Found 7 500
      else Raised (TimeoutException (''Message: '' @ [CHR 0x0A])) (1000 * nat timeout))\<close>

definition lost_wait :: "nat webdriver_wait" where
  "lost_wait cond sel timeout = Raised (OtherException ''Message: invalid session id'') 0"

text \<open>
  What a wait hands to the resolver's caller when the loop ends with it, and the time a
  list of waits takes.
\<close>

definition wait_outcome :: "'e wait_result \<Rightarrow> exn + 'e" where
  "wait_outcome r = (case r of Found e _ \<Rightarrow> Inr e | Raised ex _ \<Rightarrow> Inl ex)"

definition waits_ms :: "'e webdriver_wait \<Rightarrow> condition \<Rightarrow> int \<Rightarrow> locator list \<Rightarrow> nat" where
  "waits_ms until cond timeout sels = sum_list (map (\<lambda>s. wait_ms (until cond s timeout)) sels)"


section \<open>The world outside the program\<close>

text \<open>
  Decimal text of an integer, as an f-string renders it.
\<close>

fun str_nat :: "nat \<Rightarrow> string" where
  "str_nat n =
     (if n < 10 then [''0123456789'' ! n] else str_nat (n div 10) @ [''0123456789'' ! (n mod 10)])"

definition str_int :: "int \<Rightarrow> string" where
  "str_int i = (if i < 0 then CHR ''-'' # str_nat (nat (- i)) else str_nat (nat i))"

text \<open>
  The buttons of the control surface (dashboard.py): Stop sets \<open>should_stop\<close>, Pause sets
  \<open>is_paused\<close>, Resume clears it. Nothing else writes these two flags.
\<close>

datatype control_action = Press_stop | Press_pause | Press_resume

text \<open>
  Everything the program reads from outside, and every call into a library or a
  collaborator that can fail, is a field of \<open>env\<close>. A value of type \<open>exn + 'a\<close> is the
  outcome of an expression that either raises (\<open>Inl\<close>) or gives a value; an \<open>exn option\<close>
  is the exception a call raises, if any. A field that is a function of a \<open>nat\<close> is
  indexed by the number of earlier events of the same kind, so that the answer may
  change from one to the next (the port opens after a launch, the user presses stop).
  \<^item> \<open>daily_message_limit\<close>: \<open>int(os.getenv("DAILY_MESSAGE_LIMIT", "45"))\<close>, a
  \<open>ValueError\<close> when the variable is not a number; \<open>chrome_debug_port\<close>:
  \<open>int(os.getenv("CHROME_DEBUG_PORT", "9222"))\<close>; \<open>CHROME_PATH\<close>, \<open>IMAGE_PATH\<close>: the
  variables, \<open>None\<close> when unset;
  \<^item> \<open>image_check\<close>: \<open>Path(image_path).exists()\<close>, a \<open>TypeError\<close> when \<open>IMAGE_PATH\<close> is
  unset; \<open>project_profile_dir\<close>: \<open>str(PROJECT_ROOT / ".tmp" / "chrome-whatsapp")\<close>;
  \<^item> \<open>port_probe port k\<close>: the \<open>k\<close>-th \<open>socket.create_connection\<close> to the port: connected
  (\<open>Inr True\<close>), one of the errors \<open>_is_port_open\<close> catches (\<open>Inr False\<close>), or an
  exception it does not catch, such as the \<open>OverflowError\<close> of a port number too large
  for the platform; \<open>makedirs_error dir\<close>, \<open>popen_error cmd\<close>: what \<open>os.makedirs\<close> and
  \<open>subprocess.Popen\<close> raise, for instance \<open>FileNotFoundError\<close> for an empty directory
  name or a missing executable;
  \<^item> \<open>attach_error\<close>: what installing the driver and attaching to the browser raise;
  \<open>tab_search\<close>: the loop over the browser's windows, which tells whether one shows
  web.whatsapp.com; \<open>get_error\<close>: what \<open>driver.get\<close> raises;
  \<^item> \<open>sheet_read\<close>: reading the range A:D of the sheet;
  \<open>format_template first_name\<close>: \<open>template.format(first_name=first_name)\<close>, an exception
  when \<open>MESSAGE_TEMPLATE\<close> is unset or has other placeholders;
  \<^item> \<open>send_outcome i phone caption\<close>: what \<open>send_whatsapp_message\<close> does for the
  \<open>i\<close>-th contact of the run, a returned value or a raised exception;
  \<open>write_error k\<close>: what the \<open>k\<close>-th call of \<open>write_status\<close> raises;
  \<open>whatsapp_connected i\<close>: the answer of \<open>is_whatsapp_connected\<close> after the \<open>i\<close>-th attempt;
  \<open>progress_error k\<close>: what the \<open>k\<close>-th call of the progress callback raises;
  \<open>save_error\<close>: what writing the log file raises;
  \<^item> \<open>control k\<close>: what the user did on the control surface between the previous read
  of a control flag by the loop and its \<open>k\<close>-th read; \<open>jitter i\<close>: the value of
  \<open>random.uniform(-5, 10)\<close> after the \<open>i\<close>-th contact.
\<close>

record env =
  daily_message_limit :: "exn + int"
  chrome_debug_port :: "exn + int"
  CHROME_PATH :: "string option"
  IMAGE_PATH :: "string option"
  image_check :: "exn + bool"
  project_profile_dir :: string
  port_probe :: "int \<Rightarrow> nat \<Rightarrow> exn + bool"
  makedirs_error :: "string \<Rightarrow> exn option"
  popen_error :: "string list \<Rightarrow> exn option"
  attach_error :: "exn option"
  tab_search :: "exn + bool"
  get_error :: "exn option"
  sheet_read :: "exn + string list list"
  format_template :: "string \<Rightarrow> exn + string"
  send_outcome :: "nat \<Rightarrow> string \<Rightarrow> string \<Rightarrow> exn + bool"
  write_error :: "nat \<Rightarrow> exn option"
  whatsapp_connected :: "nat \<Rightarrow> bool"
  progress_error :: "nat \<Rightarrow> exn option"
  save_error :: "exn option"
  control :: "nat \<Rightarrow> control_action list"
  jitter :: "nat \<Rightarrow> real"

text \<open>
  One entry of the \<open>results\<close> of a run, and the content of \<open>.tmp/send_log.json\<close> as
  \<open>_save_log\<close> writes it. The wall-clock time stamps of the source (of a log line, of a
  \<open>SendResult\<close>, of the log file) are left out of the model.
\<close>

record send_result =
  contact :: contact
  success :: bool
  error :: "string option"

text \<open>One constructor for each message text of \<open>run_send_loop\<close>, with the values the text shows.\<close>

datatype log_message =
    Image_not_found "string option"
  | Launching_Chrome
  | Connected_to_Chrome
  | Tab_not_found
  | WhatsApp_Web_is_active
  | Fetching int
  | No_pending_contacts
  | Found_only nat int
  | Starting_to_send nat
  | Stop_requested
  | Sending_to nat nat string string
  | Sent_successfully string
  | Failed_not_on_WhatsApp string
  | Failed string
  | Error_unexpected string
  | Disconnected
  | Waiting real
  | Critical_error string
  | Session_complete int int

record log_data =
  log_sent :: int
  log_failed :: int
  log_total_attempted :: int
  log_log :: "log_message list"
  log_results :: "send_result list"

text \<open>
  Everything the program does to the outside is a field of \<open>world\<close>: the connection
  attempts made (\<open>probes\<close>), the directories created, the commands started with
  \<open>subprocess.Popen\<close>, the total time spent in \<open>time.sleep\<close> (milliseconds), the pages
  opened with \<open>driver.get\<close>, the number of reads of a control flag, the calls of
  \<open>send_whatsapp_message\<close> with their outcome, the calls of \<open>write_status\<close> (row and
  status) and the cells they have set (row and value), the calls of the progress
  callback, and the content of the log file.
\<close>

record world =
  probes :: nat
  made_dirs :: "string list"
  launched :: "string list list"
  slept_ms :: nat
  opened_urls :: "string list"
  flag_reads :: nat
  attempts :: "(contact \<times> (exn + bool)) list"
  write_calls :: "(nat \<times> bool) list"
  sheet_writes :: "(nat \<times> nat) list"
  progress_calls :: nat
  send_log :: "log_data option"

definition sleep :: "nat \<Rightarrow> world \<Rightarrow> world" where
  "sleep ms w = w\<lparr>slept_ms := slept_ms w + ms\<rparr>"

section \<open>whatsapp_sender.py: the session connector\<close>

text \<open>
  \<open>_is_port_open\<close>: one connection attempt; a refused or timed-out attempt is \<open>False\<close>, an
  exception of another class is not caught.
\<close>

definition is_port_open :: "env \<Rightarrow> int \<Rightarrow> world \<Rightarrow> (exn + bool) \<times> world" where
  "is_port_open e port w = (port_probe e port (probes w), w\<lparr>probes := probes w + 1\<rparr>)"

text \<open>
  The polling loop \<open>for _ in range(launch_timeout * 2)\<close> of \<open>ensure_chrome_ready\<close>; the
  first argument after the port is the number of iterations left. \<open>Inr True\<close> is the
  \<open>return\<close> from inside the loop, \<open>Inr False\<close> the loop running out.
\<close>

fun poll_port :: "env \<Rightarrow> int \<Rightarrow> nat \<Rightarrow> world \<Rightarrow> (exn + bool) \<times> world" where
  "poll_port e port 0 w = (Inr False, w)"
| "poll_port e port (Suc k) w =
     (case is_port_open e port w of
        (Inl ex, w1) \<Rightarrow> (Inl ex, w1)
      | (Inr True, w1) \<Rightarrow> (Inr True, w1)
      | (Inr False, w1) \<Rightarrow> poll_port e port k (sleep 500 w1))"

definition default_chrome_path :: string where
  "default_chrome_path =
     ''C:'' @ CHR 0x5C # ''Program Files'' @ CHR 0x5C # ''Google'' @ CHR 0x5C # ''Chrome''
     @ CHR 0x5C # ''Application'' @ CHR 0x5C # ''chrome.exe''"

definition chrome_command :: "string \<Rightarrow> int \<Rightarrow> string \<Rightarrow> string list" where
  "chrome_command chrome_path debug_port profile_dir =
     [chrome_path,
      ''--remote-debugging-port='' @ str_int debug_port,
      ''--user-data-dir='' @ profile_dir,
      ''--no-first-run'',
      ''--no-default-browser-check'']"

definition ensure_chrome_ready ::
  "env \<Rightarrow> int \<Rightarrow> string option \<Rightarrow> string option \<Rightarrow> int \<Rightarrow> world \<Rightarrow> (exn + unit) \<times> world" where
  "ensure_chrome_ready e debug_port chrome_path profile_dir launch_timeout w =
     (case is_port_open e debug_port w of
        (Inl ex, w1) \<Rightarrow> (Inl ex, w1)
      | (Inr True, w1) \<Rightarrow> (Inr (), w1)
      | (Inr False, w1) \<Rightarrow>
          let chrome_path1 =
                (case chrome_path of
                   None \<Rightarrow> (case CHROME_PATH e of None \<Rightarrow> default_chrome_path | Some p \<Rightarrow> p)
                 | Some p \<Rightarrow> p);
              profile_dir1 =
                (case profile_dir of None \<Rightarrow> project_profile_dir e | Some d \<Rightarrow> d)
          in (case makedirs_error e profile_dir1 of
                Some ex \<Rightarrow> (Inl ex, w1)
              | None \<Rightarrow>
                  let w2 = w1\<lparr>made_dirs := made_dirs w1 @ [profile_dir1]\<rparr>;
                      cmd = chrome_command chrome_path1 debug_port profile_dir1
                  in (case popen_error e cmd of
                        Some ex \<Rightarrow> (Inl ex, w2)
                      | None \<Rightarrow>
                          let w3 = w2\<lparr>launched := launched w2 @ [cmd]\<rparr>
                          in (case poll_port e debug_port (nat (launch_timeout * 2)) w3 of
                                (Inl ex, w4) \<Rightarrow> (Inl ex, w4)
                              | (Inr True, w4) \<Rightarrow> (Inr (), w4)
                              | (Inr False, w4) \<Rightarrow>
                                  (Inl (RuntimeError
                                     (''Chrome did not start with remote-debugging on port ''
                                      @ str_int debug_port @ '' within ''
                                      @ str_int launch_timeout
                                      @ ''s.  Check CHROME_PATH in .env.'')), w4)))))"

text \<open>
  \<open>create_driver\<close>: make sure the browser is reachable, then install the driver and
  attach to the browser. The handle it returns stands for the one browser session of
  the run.
\<close>

definition create_driver ::
  "env \<Rightarrow> int \<Rightarrow> string option \<Rightarrow> string option \<Rightarrow> world \<Rightarrow> (exn + unit) \<times> world" where
  "create_driver e debug_port chrome_path profile_dir w =
     (case ensure_chrome_ready e debug_port chrome_path profile_dir 15 w of
        (Inl ex, w1) \<Rightarrow> (Inl ex, w1)
      | (Inr ready, w1) \<Rightarrow>
          (case attach_error e of Some ex \<Rightarrow> (Inl ex, w1) | None \<Rightarrow> (Inr (), w1)))"







section \<open>A sample run\<close>







section \<open>Properties of the string helpers\<close>

lemma all_dropWhile_iff: "(\<forall>x\<in>set (dropWhile P xs). P x) \<longleftrightarrow> (\<forall>x\<in>set xs. P x)"
  by (induction xs) auto

lemma strip_Nil_iff: "strip s = [] \<longleftrightarrow> list_all isspace s"
  by (simp add: strip_def lstrip_def rstrip_def dropWhile_eq_Nil_conv list_all_iff
      all_dropWhile_iff)

lemma comma_strip_nonempty: "CHR '','' \<in> set s \<Longrightarrow> strip s \<noteq> []"
proof -
  assume c: "CHR '','' \<in> set s"
  have "\<not> isspace CHR '',''" by (simp add: isspace_def)
  with c show ?thesis by (auto simp: strip_Nil_iff list_all_iff)
qed

lemma count_list_filter: "count_list (filter P xs) c = (if P c then count_list xs c else 0)"
  by (induction xs) auto

text \<open>
  C4 (as amended). A sort name containing a comma yields the trimmed text after the first
  comma, unless that text is empty after trimming, in which case the fallback
  \<open>there\<close> is returned; a comma-free name that is not whitespace-only yields itself
  trimmed; an empty or whitespace-only name yields \<open>there\<close>;
  \<open>Lorenzo Nourafchan, Moshe\<close> yields \<open>Moshe\<close>.
\<close>

theorem extract_first_name_cases:
  "(CHR '','' \<in> set s \<longrightarrow>
      extract_first_name s =
        (if strip (after_first_comma s) = [] then ''there'' else strip (after_first_comma s)))
   \<and> (CHR '','' \<notin> set s \<and> \<not> list_all isspace s \<longrightarrow> extract_first_name s = strip s)
   \<and> (list_all isspace s \<longrightarrow> extract_first_name s = ''there'')
   \<and> extract_first_name ''Lorenzo Nourafchan, Moshe'' = ''Moshe''"
proof (intro conjI impI)
  assume c: "CHR '','' \<in> set s"
  then have "strip s \<noteq> []" "s \<noteq> []" using comma_strip_nonempty by auto
  with c show "extract_first_name s =
        (if strip (after_first_comma s) = [] then ''there'' else strip (after_first_comma s))"
    by (simp add: extract_first_name_def split_once_def after_first_comma_def Let_def)
next
  assume "CHR '','' \<notin> set s \<and> \<not> list_all isspace s"
  then show "extract_first_name s = strip s"
    by (auto simp: extract_first_name_def strip_Nil_iff)
next
  assume "list_all isspace s"
  then show "extract_first_name s = ''there''"
    by (simp add: extract_first_name_def strip_Nil_iff)
next
  show "extract_first_name ''Lorenzo Nourafchan, Moshe'' = ''Moshe''"
    by code_simp
qed

theorem extract_first_name_cases_witness:
  "extract_first_name ''Nourafchan, Moshe '' = ''Moshe''
   \<and> extract_first_name '' David '' = ''David''
   \<and> extract_first_name ''  '' = ''there''"
proof -
  have a: "CHR '','' \<in> set ''Nourafchan, Moshe ''" by simp
  have b: "CHR '','' \<notin> set '' David '' \<and> \<not> list_all isspace '' David ''"
    by (simp add: isspace_def)
  have c: "list_all isspace ''  ''" by (simp add: isspace_def)
  have s1: "strip (after_first_comma ''Nourafchan, Moshe '') = ''Moshe''" by code_simp
  have s2: "strip '' David '' = ''David''" by code_simp
  from extract_first_name_cases [of "''Nourafchan, Moshe ''"] a s1
  have 1: "extract_first_name ''Nourafchan, Moshe '' = ''Moshe''" by simp
  from extract_first_name_cases [of "'' David ''"] b s2
  have 2: "extract_first_name '' David '' = ''David''" by simp
  from extract_first_name_cases [of "''  ''"] c
  have 3: "extract_first_name ''  '' = ''there''" by simp
  from 1 2 3 show ?thesis by simp
qed

text \<open>
  C4 as stated fails: \<open>Smith, \<close> contains a comma, the trimmed text after it is empty,
  and the function returns the fallback instead of that empty text.
\<close>

theorem extract_first_name_comma_counterexample:
  "CHR '','' \<in> set ''Smith, ''
   \<and> strip (after_first_comma ''Smith, '') = []
   \<and> extract_first_name ''Smith, '' = ''there''
   \<and> extract_first_name ''Smith, '' \<noteq> strip (after_first_comma ''Smith, '')"
  by code_simp

lemma normalize_phone_filter:
  "normalize_phone s = filter isdigit s
   \<and> subseq (normalize_phone s) s
   \<and> count_list (normalize_phone s) c = (if isdigit c then count_list s c else 0)"
proof -
  have e: "normalize_phone s = filter isdigit s" by (simp add: normalize_phone_def)
  show ?thesis unfolding e by (simp add: count_list_filter)
qed

text \<open>
  C5. The claim and the docstring of \<open>normalize_phone\<close> (digits only, for the chat URL)
  hold on the two examples, but not in general: the function keeps every character
  that \<open>str.isdigit\<close> accepts, and that includes characters that are not decimal
  digits. For the phone text \<open>5\<close> followed by a superscript two (U+00B2) it returns
  both characters, although the superscript is none of \<open>0\<close> to \<open>9\<close>.
\<close>

theorem normalize_phone_keeps_superscript:
  "normalize_phone [CHR ''5'', CHR 0xB2] = [CHR ''5'', CHR 0xB2]
   \<and> CHR 0xB2 \<notin> set ''0123456789''
   \<and> normalize_phone ''+1 347 551-1532'' = ''13475511532''
   \<and> normalize_phone [] = []"
  by (simp add: normalize_phone_def isdigit_def)


section \<open>The contact source\<close>










section \<open>The selector resolver\<close>

lemma times_out_Raised:
  "times_out until cond timeout sel \<longleftrightarrow>
     (\<exists>m ms. until cond sel timeout = Raised (TimeoutException m) ms)"
  by (auto simp: times_out_def split: wait_result.splits exn.splits)

lemma try_selectors_all_time_out:
  "find (\<lambda>s. \<not> times_out until cond timeout s) sels = None \<Longrightarrow>
   try_selectors until cond timeout sels le tr =
     (Inl (Inr (if sels = [] then le else wait_error (until cond (last sels) timeout))),
      \<lparr>tried = tried tr @ sels,
       waited_ms = waited_ms tr + waits_ms until cond timeout sels\<rparr>)"
proof (induction sels arbitrary: le tr)
  case Nil
  show ?case by (simp add: waits_ms_def)
next
  case (Cons sel rest)
  from Cons.prems have t: "times_out until cond timeout sel"
    and fr: "find (\<lambda>s. \<not> times_out until cond timeout s) rest = None"
    by (auto split: if_splits)
  from t obtain m ms where m: "until cond sel timeout = Raised (TimeoutException m) ms"
    by (auto simp: times_out_Raised)
  show ?case using m Cons.IH [OF fr]
    by (simp add: wait_error_def after_wait_def waits_ms_def wait_ms_def)
qed

lemma try_selectors_first_other:
  "find (\<lambda>s. \<not> times_out until cond timeout s) sels = Some sel \<Longrightarrow>
   try_selectors until cond timeout sels le tr =
     ((case until cond sel timeout of Found e ms \<Rightarrow> Inr e | Raised ex ms \<Rightarrow> Inl (Inl ex)),
      \<lparr>tried = tried tr @ takeWhile (times_out until cond timeout) sels @ [sel],
       waited_ms = waited_ms tr
         + waits_ms until cond timeout (takeWhile (times_out until cond timeout) sels @ [sel])\<rparr>)"
proof (induction sels arbitrary: le tr)
  case Nil
  then show ?case by simp
next
  case (Cons s rest)
  show ?case
  proof (cases "times_out until cond timeout s")
    case False
    with Cons.prems have eq: "s = sel" by simp
    from False show ?thesis unfolding eq
      by (cases "until cond sel timeout")
         (auto simp: times_out_def after_wait_def waits_ms_def wait_ms_def split: exn.splits)
  next
    case True
    then obtain m ms where m: "until cond s timeout = Raised (TimeoutException m) ms"
      by (auto simp: times_out_Raised)
    from True Cons.prems
    have "find (\<lambda>s. \<not> times_out until cond timeout s) rest = Some sel" by simp
    from Cons.IH [OF this] m True show ?thesis
      by (simp add: after_wait_def waits_ms_def wait_ms_def)
  qed
qed

lemma SELECTORS_nonempty: "map_of SELECTORS key = Some sels \<Longrightarrow> sels \<noteq> []"
  by (auto simp: SELECTORS_def split: if_splits)

text \<open>
  C2 (as amended). For a registered target name, each resolver starts waits on the
  registered locators in declared order, every wait with the full bound of its own, so
  that the time spent is the sum of the waits made. It stops at the first locator whose
  wait does not time out: when that wait returns an element the resolver returns it, and
  when that wait raises an exception other than \<open>TimeoutException\<close> the resolver lets it
  through with no further locator tried. When every wait times out it has tried every
  locator and raises a \<open>TimeoutException\<close> (the spec's \<open>ElementNotFound\<close>) whose message
  carries the target name and the text of the last wait's exception.
\<close>

theorem selector_resolver_fresh_bound_each:
  assumes "map_of SELECTORS selector_key = Some sels"
  shows
    "(find (\<lambda>s. \<not> times_out until presence_of_element_located timeout s) sels = Some sel \<longrightarrow>
        find_element_with_fallbacks until selector_key timeout =
          (wait_outcome (until presence_of_element_located sel timeout),
           \<lparr>tried = takeWhile (times_out until presence_of_element_located timeout) sels @ [sel],
            waited_ms = waits_ms until presence_of_element_located timeout
              (takeWhile (times_out until presence_of_element_located timeout) sels @ [sel])\<rparr>))
     \<and> (find (\<lambda>s. \<not> times_out until presence_of_element_located timeout s) sels = None \<longrightarrow>
        find_element_with_fallbacks until selector_key timeout =
          (Inl (timeout_exception
             (''Could not find element '' @ CHR 0x27 # selector_key
              @ ''' with any selector. Last error: ''
              @ str_last (wait_error (until presence_of_element_located (last sels) timeout)))),
           \<lparr>tried = sels, waited_ms = waits_ms until presence_of_element_located timeout sels\<rparr>))
     \<and> (find (\<lambda>s. \<not> times_out until element_to_be_clickable timeout s) sels = Some sel \<longrightarrow>
        find_clickable_with_fallbacks until selector_key timeout =
          (wait_outcome (until element_to_be_clickable sel timeout),
           \<lparr>tried = takeWhile (times_out until element_to_be_clickable timeout) sels @ [sel],
            waited_ms = waits_ms until element_to_be_clickable timeout
              (takeWhile (times_out until element_to_be_clickable timeout) sels @ [sel])\<rparr>))
     \<and> (find (\<lambda>s. \<not> times_out until element_to_be_clickable timeout s) sels = None \<longrightarrow>
        find_clickable_with_fallbacks until selector_key timeout =
          (Inl (timeout_exception
             (''Could not find clickable element '' @ CHR 0x27 # selector_key
              @ '''. Last error: ''
              @ str_last (wait_error (until element_to_be_clickable (last sels) timeout)))),
           \<lparr>tried = sels, waited_ms = waits_ms until element_to_be_clickable timeout sels\<rparr>))"
proof -
  from assms have ne: "sels \<noteq> []" by (rule SELECTORS_nonempty)
  let ?tr0 = "\<lparr>tried = [], waited_ms = 0\<rparr>"
  have first: "try_selectors until cond timeout sels None ?tr0 =
       ((case until cond sel timeout of Found e ms \<Rightarrow> Inr e | Raised ex ms \<Rightarrow> Inl (Inl ex)),
        \<lparr>tried = takeWhile (times_out until cond timeout) sels @ [sel],
         waited_ms = waits_ms until cond timeout
           (takeWhile (times_out until cond timeout) sels @ [sel])\<rparr>)"
    if "find (\<lambda>s. \<not> times_out until cond timeout s) sels = Some sel" for cond
    using try_selectors_first_other [OF that, of None ?tr0] by simp
  have none: "try_selectors until cond timeout sels None ?tr0 =
       (Inl (Inr (wait_error (until cond (last sels) timeout))),
        \<lparr>tried = sels, waited_ms = waits_ms until cond timeout sels\<rparr>)"
    if "find (\<lambda>s. \<not> times_out until cond timeout s) sels = None" for cond
    using try_selectors_all_time_out [OF that, of None ?tr0] ne by simp
  show ?thesis
  proof (intro conjI impI)
    assume "find (\<lambda>s. \<not> times_out until presence_of_element_located timeout s) sels = Some sel"
    from first [OF this] assms
    show "find_element_with_fallbacks until selector_key timeout =
          (wait_outcome (until presence_of_element_located sel timeout),
           \<lparr>tried = takeWhile (times_out until presence_of_element_located timeout) sels @ [sel],
            waited_ms = waits_ms until presence_of_element_located timeout
              (takeWhile (times_out until presence_of_element_located timeout) sels @ [sel])\<rparr>)"
      by (cases "until presence_of_element_located sel timeout")
         (simp_all add: find_element_with_fallbacks_def wait_outcome_def)
  next
    assume "find (\<lambda>s. \<not> times_out until presence_of_element_located timeout s) sels = None"
    from none [OF this] assms
    show "find_element_with_fallbacks until selector_key timeout =
          (Inl (timeout_exception
             (''Could not find element '' @ CHR 0x27 # selector_key
              @ ''' with any selector. Last error: ''
              @ str_last (wait_error (until presence_of_element_located (last sels) timeout)))),
           \<lparr>tried = sels, waited_ms = waits_ms until presence_of_element_located timeout sels\<rparr>)"
      by (simp add: find_element_with_fallbacks_def)
  next
    assume "find (\<lambda>s. \<not> times_out until element_to_be_clickable timeout s) sels = Some sel"
    from first [OF this] assms
    show "find_clickable_with_fallbacks until selector_key timeout =
          (wait_outcome (until element_to_be_clickable sel timeout),
           \<lparr>tried = takeWhile (times_out until element_to_be_clickable timeout) sels @ [sel],
            waited_ms = waits_ms until element_to_be_clickable timeout
              (takeWhile (times_out until element_to_be_clickable timeout) sels @ [sel])\<rparr>)"
      by (cases "until element_to_be_clickable sel timeout")
         (simp_all add: find_clickable_with_fallbacks_def wait_outcome_def)
  next
    assume "find (\<lambda>s. \<not> times_out until element_to_be_clickable timeout s) sels = None"
    from none [OF this] assms
    show "find_clickable_with_fallbacks until selector_key timeout =
          (Inl (timeout_exception
             (''Could not find clickable element '' @ CHR 0x27 # selector_key
              @ '''. Last error: ''
              @ str_last (wait_error (until element_to_be_clickable (last sels) timeout)))),
           \<lparr>tried = sels, waited_ms = waits_ms until element_to_be_clickable timeout sels\<rparr>)"
      by (simp add: find_clickable_with_fallbacks_def)
  qed
qed

theorem selector_resolver_fresh_bound_each_witness:
  \<open>find_element_with_fallbacks demo_wait ''message_input'' 10 =
     (Inr 7,
      \<lparr>tried =
         [(CSS_SELECTOR, ''div[contenteditable="true"][data-tab="10"]''),
          (CSS_SELECTOR, ''div[contenteditable="true"][title="Type a message"]''),
          (CSS_SELECTOR, ''footer div[contenteditable="true"]'')],
       waited_ms = 20500\<rparr>)
   \<and> find_clickable_with_fallbacks demo_wait ''popup_ok_button'' 5 =
       (Inl (TimeoutException
          (''Message: Could not find clickable element '' @ CHR 0x27 # ''popup_ok_button''
           @ '''. Last error: Message: '' @ [CHR 0x0A, CHR 0x0A])),
        \<lparr>tried =
           [(XPATH, ''//div[@role="button" and .//div[text()="OK"]]''),
            (XPATH, ''//div[contains(@class, "popup")]//div[@role="button"]'')],
         waited_ms = 10000\<rparr>)
   \<and> find_element_with_fallbacks lost_wait ''message_input'' 10 =
       (Inl (OtherException ''Message: invalid session id''),
        \<lparr>tried = [(CSS_SELECTOR, ''div[contenteditable="true"][data-tab="10"]'')],
         waited_ms = 0\<rparr>)\<close>
proof -
  let ?m = \<open>[(CSS_SELECTOR, ''div[contenteditable="true"][data-tab="10"]''),
       (CSS_SELECTOR, ''div[contenteditable="true"][title="Type a message"]''),
       (CSS_SELECTOR, ''footer div[contenteditable="true"]'')]\<close>
  let ?p = \<open>[(XPATH, ''//div[@role="button" and .//div[text()="OK"]]''),
       (XPATH, ''//div[contains(@class, "popup")]//div[@role="button"]'')]\<close>
  have m: "map_of SELECTORS ''message_input'' = Some ?m" by (simp add: SELECTORS_def)
  have p: "map_of SELECTORS ''popup_ok_button'' = Some ?p" by (simp add: SELECTORS_def)
  have fm: \<open>find (\<lambda>s. \<not> times_out demo_wait presence_of_element_located 10 s) ?m =
      Some (CSS_SELECTOR, ''footer div[contenteditable="true"]'')\<close>
    by (simp add: times_out_def demo_wait_def)
  have fp: "find (\<lambda>s. \<not> times_out demo_wait element_to_be_clickable 5 s) ?p = None"
    by (simp add: times_out_def demo_wait_def)
  have fl: \<open>find (\<lambda>s. \<not> times_out lost_wait presence_of_element_located 10 s) ?m =
      Some (CSS_SELECTOR, ''div[contenteditable="true"][data-tab="10"]'')\<close>
    by (simp add: times_out_def lost_wait_def)
  note t = selector_resolver_fresh_bound_each
  from t [OF m, THEN conjunct1, rule_format, OF fm]
  have 1: "find_element_with_fallbacks demo_wait ''message_input'' 10 =
     (Inr 7, \<lparr>tried = ?m, waited_ms = 20500\<rparr>)"
    by (simp add: times_out_def demo_wait_def wait_outcome_def waits_ms_def wait_ms_def)
  from t [OF p, THEN conjunct2, THEN conjunct2, THEN conjunct2, rule_format, OF fp]
  have 2: \<open>find_clickable_with_fallbacks demo_wait ''popup_ok_button'' 5 =
       (Inl (TimeoutException
          (''Message: Could not find clickable element '' @ CHR 0x27 # ''popup_ok_button''
           @ '''. Last error: Message: '' @ [CHR 0x0A, CHR 0x0A])),
        \<lparr>tried = ?p, waited_ms = 10000\<rparr>)\<close>
    by (simp add: demo_wait_def wait_error_def str_last_def timeout_exception_def waits_ms_def
        wait_ms_def)
  from t [OF m, THEN conjunct1, rule_format, OF fl]
  have 3: \<open>find_element_with_fallbacks lost_wait ''message_input'' 10 =
       (Inl (OtherException ''Message: invalid session id''),
        \<lparr>tried = [(CSS_SELECTOR, ''div[contenteditable="true"][data-tab="10"]'')],
         waited_ms = 0\<rparr>)\<close>
    by (simp add: times_out_def lost_wait_def wait_outcome_def waits_ms_def wait_ms_def)
  from 1 2 3 show ?thesis by simp
qed

text \<open>
  C2 as stated fails. With only the third locator of \<open>message_input\<close> present and a bound
  of 10 seconds, the element comes back after two full bounds and a half second, not
  within the bound; and when the first wait raises an exception other than
  \<open>TimeoutException\<close>, no second locator is tried and the resolver fails with that
  exception, not with its own error.
\<close>

theorem selector_resolver_bound_counterexample:
  \<open>fst (find_element_with_fallbacks demo_wait ''message_input'' 10) = Inr 7
   \<and> waited_ms (snd (find_element_with_fallbacks demo_wait ''message_input'' 10)) = 20500
   \<and> (1000 :: nat) * 10 < 20500
   \<and> fst (find_element_with_fallbacks lost_wait ''message_input'' 10) =
       Inl (OtherException ''Message: invalid session id'')
   \<and> tried (snd (find_element_with_fallbacks lost_wait ''message_input'' 10)) =
       [(CSS_SELECTOR, ''div[contenteditable="true"][data-tab="10"]'')]\<close>
  by (simp add: find_element_with_fallbacks_def SELECTORS_def demo_wait_def lost_wait_def
      after_wait_def)


section \<open>The session connector\<close>










end
